theory Spec2Isabelle
  imports Main "HOL-Library.Word"
begin

unbundle bit_operations_syntax

section \<open>Bytes, struct packing and the memory image\<close>

text \<open>
  Python integers are unbounded, so every address (LVA, RVA, MVA) is an \<open>int\<close>.
  A byte is an \<open>8 word\<close>; a byte string is a list of bytes.
\<close>

type_synonym byte = "8 word"

datatype error = StructError | AttributeError

text \<open>Little-endian value of a byte string, and the \<open>n\<close> low bytes of a value.\<close>

fun unpack_le :: "byte list \<Rightarrow> int" where
  "unpack_le [] = 0"
| "unpack_le (b # bs) = uint b + 256 * unpack_le bs"

fun pack_le :: "nat \<Rightarrow> int \<Rightarrow> byte list" where
  "pack_le 0 v = []"
| "pack_le (Suc n) v = word_of_int (v mod 256) # pack_le n (v div 256)"

text \<open>
  \<open>struct.unpack('<I', s)\<close> and \<open>struct.unpack('<Q', s)\<close> raise \<open>struct.error\<close> unless
  \<open>s\<close> has exactly 4 (8) bytes; \<open>struct.pack('<I', v)\<close> and \<open>struct.pack('<Q', v)\<close>
  raise it unless \<open>0 \<le> v < 2^32\<close> (\<open>2^64\<close>).
\<close>

definition struct_unpack :: "nat \<Rightarrow> byte list \<Rightarrow> error + int" where
  "struct_unpack n s = (if length s = n then Inr (unpack_le s) else Inl StructError)"

definition struct_pack :: "nat \<Rightarrow> int \<Rightarrow> error + byte list" where
  "struct_pack n v = (if 0 \<le> v \<and> v < 2 ^ (8 * n) then Inr (pack_le n v) else Inl StructError)"

text \<open>
  Modelled from the spec: the memory object of a backend (\<open>owner_obj.memory\<close>) is not part
  of the sources at hand. It is the "raw byte view of the fully mapped image", a partial
  map from addresses relative to the image to bytes. \<open>read_bytes\<close> returns the bytes it
  finds and stops at the first address that is not backed, so a short read reaches
  \<open>struct.unpack\<close> as a string of the wrong length; \<open>write_bytes\<close> stores the bytes at
  successive addresses.
\<close>

type_synonym memory = "int \<rightharpoonup> byte"

fun read_bytes :: "memory \<Rightarrow> int \<Rightarrow> nat \<Rightarrow> byte list" where
  "read_bytes m a 0 = []"
| "read_bytes m a (Suc n) =
     (case m a of None \<Rightarrow> [] | Some b \<Rightarrow> b # read_bytes m (a + 1) n)"

fun write_bytes :: "memory \<Rightarrow> int \<Rightarrow> byte list \<Rightarrow> memory" where
  "write_bytes m a [] = m"
| "write_bytes m a (b # bs) = write_bytes (m(a \<mapsto> b)) (a + 1) bs"


section \<open>The object model\<close>

text \<open>
  Objects refer to each other (a symbol to its owner, a relocation to its owner and to the
  symbol that resolved it) and the loader changes \<open>mapped_base\<close> after construction, so
  objects live in a store and are named by an identifier: \<open>owner_obj\<close> is an identifier,
  read through the store whenever the source follows the reference.
\<close>

type_synonym obj_id = nat

record symbol =
  sym_owner :: obj_id
  sym_name :: "string option"
  sym_addr :: int
  sym_size :: nat
  is_import :: bool
  is_export :: bool

record reloc =
  rel_owner :: obj_id
  rel_symbol :: "symbol option"
  rel_addr :: int
  resolvewith :: "string option"
  reloc_type :: "int option"
  next_rva :: "int option"
  resolved :: bool
  resolvedby :: "symbol option"

record Section =
  sec_name :: string
  file_address :: int
  virtual_address :: int
  virtual_size :: int
  characteristics :: int

text \<open>
  The records the format parser (pefile) delivers. \<open>raw_data\<close> is what the parser's
  \<open>get_data\<close> finds at an RVA: the bytes of the file behind the section that contains the
  RVA (behind the headers, below the first section). It has no byte where the raw data of
  a section has ended, although the mapped image (\<open>get_memory_mapped_image\<close>) is filled
  with zeros there.
\<close>

record import_data =
  imp_name :: "string option"
  imp_ordinal :: nat
  imp_address :: int

record import_desc =
  dll :: string
  imports_of :: "import_data list"

record export_data =
  exp_name :: "string option"
  exp_address :: int

record reloc_data =
  entry_rva :: int
  entry_type :: int

record tls_struct =
  StartAddressOfRawData :: int
  EndAddressOfRawData :: int
  AddressOfIndex :: int
  AddressOfCallBacks :: int
  SizeOfZeroFill :: int

record pe_section =
  Name :: string
  Misc_PhysicalAddress :: int
  VirtualAddress :: int
  Misc_VirtualSize :: int
  Characteristics :: int

record pefile =
  ImageBase :: int
  AddressOfEntryPoint :: int
  DIRECTORY_ENTRY_IMPORT :: "import_desc list option"
  DIRECTORY_ENTRY_EXPORT :: "export_data list option"
  DIRECTORY_ENTRY_BASERELOC :: "reloc_data list list option"
  DIRECTORY_ENTRY_TLS :: "tls_struct option"
  pe_sections :: "pe_section list"
  raw_data :: memory
  memory_mapped_image :: memory

text \<open>
  One loaded object. \<open>size_of\<close> is the \<open>size\<close> attribute of the test's \<open>MockBackend\<close>;
  \<open>arch_bytes\<close> is \<open>arch.bytes\<close>. A directory that the parsed file may lack
  (\<open>hasattr\<close>) is an \<open>option\<close>, and so is an attribute that starts as \<open>None\<close>. The
  keys of the export table are the names the parser gives, which may be \<open>None\<close>.
\<close>

record backend =
  linked_base :: int
  mapped_base :: int
  size_of :: int
  arch_bytes :: nat
  provides :: "string option"
  pe :: pefile
  obj_entry :: int
  deps :: "string list"
  exports :: "string option \<rightharpoonup> symbol"
  imports_dict :: "string \<rightharpoonup> reloc"
  relocs :: "reloc list"
  sections :: "Section list"
  sections_map :: "string \<rightharpoonup> Section"
  memory :: memory
  tls_used :: bool
  tls_data_start :: "int option"
  tls_data_size :: "int option"
  tls_index_address :: "int option"
  tls_callbacks :: "int option list option"
  tls_size_of_zero_fill :: "int option"

datatype warning = Unimplemented_reloc_type "int option" | Corrupt_reloc_table

text \<open>
  The store of objects, the messages of the logger, and the loader's ordered list of placed
  objects.
\<close>

record state =
  objs :: "obj_id \<Rightarrow> backend"
  warnings :: "warning list"
  placed :: "obj_id list"

definition modify :: "obj_id \<Rightarrow> (backend \<Rightarrow> backend) \<Rightarrow> state \<Rightarrow> state" where
  "modify i f st = st\<lparr>objs := (objs st)(i := f (objs st i))\<rparr>"

definition warning :: "warning \<Rightarrow> state \<Rightarrow> state" where
  "warning w st = st\<lparr>warnings := warnings st @ [w]\<rparr>"


section \<open>Address translation\<close>

text \<open>
  Modelled from the spec: the address translator \<open>AT\<close> is not part of the sources at hand.
  Section 4.1 of the specification gives \<open>rva_to_mva(rva) = mapped_base + rva\<close> and
  \<open>lva_to_mva(lva) = mapped_base + (lva - link_base)\<close>, with the inverses; the arithmetic
  does not wrap. A translator value holds the relative address and the owner.
\<close>

record at =
  at_rva :: int
  at_owner :: obj_id

definition from_rva :: "int \<Rightarrow> obj_id \<Rightarrow> state \<Rightarrow> at" where
  "from_rva rva owner st = \<lparr>at_rva = rva, at_owner = owner\<rparr>"

definition from_lva :: "int \<Rightarrow> obj_id \<Rightarrow> state \<Rightarrow> at" where
  "from_lva lva owner st = \<lparr>at_rva = lva - linked_base (objs st owner), at_owner = owner\<rparr>"

definition to_mva :: "at \<Rightarrow> state \<Rightarrow> int" where
  "to_mva t st = mapped_base (objs st (at_owner t)) + at_rva t"

definition to_lva :: "at \<Rightarrow> state \<Rightarrow> int" where
  "to_lva t st = linked_base (objs st (at_owner t)) + at_rva t"

definition to_rva :: "at \<Rightarrow> state \<Rightarrow> int" where
  "to_rva t st = at_rva t"


section \<open>Symbols and relocations of the PE format\<close>

text \<open>\<open>WinSymbol.__init__\<close>: the size is \<open>owner.arch.bytes\<close>.\<close>

definition WinSymbol :: "obj_id \<Rightarrow> string option \<Rightarrow> int \<Rightarrow> bool \<Rightarrow> bool \<Rightarrow> state \<Rightarrow> symbol" where
  "WinSymbol owner name addr imp exp st =
     \<lparr>sym_owner = owner, sym_name = name, sym_addr = addr,
      sym_size = arch_bytes (objs st owner), is_import = imp, is_export = exp\<rparr>"

definition WinSymbol_rebased_addr :: "symbol \<Rightarrow> state \<Rightarrow> int" where
  "WinSymbol_rebased_addr s st = to_mva (from_rva (sym_addr s) (sym_owner s) st) st"

text \<open>
  \<open>WinReloc.__init__\<close>. The base class starts a relocation unresolved (specification,
  section 3: the state of a relocation starts as unresolved).
\<close>

definition WinReloc ::
  "obj_id \<Rightarrow> symbol option \<Rightarrow> int \<Rightarrow> string option \<Rightarrow> int option \<Rightarrow> int option \<Rightarrow> reloc" where
  "WinReloc owner symb addr rw rt nrva =
     \<lparr>rel_owner = owner, rel_symbol = symb, rel_addr = addr, resolvewith = rw,
      reloc_type = rt, next_rva = nrva, resolved = False, resolvedby = None\<rparr>"

definition WinReloc_rebased_addr :: "reloc \<Rightarrow> state \<Rightarrow> int" where
  "WinReloc_rebased_addr r st = to_mva (from_rva (rel_addr r) (rel_owner r) st) st"

text \<open>
  \<open>WinReloc.value\<close>: the function falls off its end when the relocation is not resolved
  and so returns \<open>None\<close>. Reading \<open>rebased_addr\<close> of a missing \<open>resolvedby\<close> is an
  \<open>AttributeError\<close>.
\<close>

definition WinReloc_value :: "reloc \<Rightarrow> state \<Rightarrow> error + int option" where
  "WinReloc_value r st =
     (if resolved r then
        (case resolvedby r of
           None \<Rightarrow> Inl AttributeError
         | Some s \<Rightarrow> Inr (Some (WinSymbol_rebased_addr s st)))
      else Inr None)"

text \<open>\<open>PE.get_symbol\<close>: a lookup in the export table, \<open>None\<close> when the name is absent.\<close>

definition PE_get_symbol :: "backend \<Rightarrow> string option \<Rightarrow> symbol option" where
  "PE_get_symbol self name = exports self name"

text \<open>
  Modelled from the spec: \<open>Relocation.resolve_symbol\<close> of the base class is not part of
  the sources at hand. Section 4.3 of the specification: it "performs exact-name lookup of
  \<open>symbol.name\<close> against each candidate's export table in candidate order, taking the first
  match"; on success the relocation becomes resolved by the matched symbol, on failure it
  is left not resolved. Reading the name of a missing symbol is an \<open>AttributeError\<close>.
\<close>

fun first_match :: "string option \<Rightarrow> obj_id list \<Rightarrow> state \<Rightarrow> symbol option" where
  "first_match name [] st = None"
| "first_match name (so # solist) st =
     (case PE_get_symbol (objs st so) name of
        Some s \<Rightarrow> Some s
      | None \<Rightarrow> first_match name solist st)"

definition Relocation_resolve_symbol ::
  "reloc \<Rightarrow> obj_id list \<Rightarrow> state \<Rightarrow> error + (bool \<times> reloc)" where
  "Relocation_resolve_symbol r solist st =
     (case rel_symbol r of
        None \<Rightarrow> Inl AttributeError
      | Some sy \<Rightarrow>
          (case first_match (sym_name sy) solist st of
             Some s \<Rightarrow> Inr (True, r\<lparr>resolved := True, resolvedby := Some s\<rparr>)
           | None \<Rightarrow> Inr (False, r)))"

text \<open>\<open>WinReloc.resolve_symbol\<close>: the candidates are filtered by provider name first.\<close>

definition WinReloc_resolve_symbol ::
  "reloc \<Rightarrow> obj_id list \<Rightarrow> bool \<Rightarrow> state \<Rightarrow> error + (bool \<times> reloc)" where
  "WinReloc_resolve_symbol r solist bypass_compatibility st =
     (let solist' =
        (if \<not> bypass_compatibility
         then filter (\<lambda>x. resolvewith r = provides (objs st x)) solist
         else solist)
      in Relocation_resolve_symbol r solist' st)"

text \<open>
  The type codes of \<open>pefile.RELOCATION_TYPE\<close>, a table of the parsing library.
\<close>

definition IMAGE_REL_BASED_ABSOLUTE :: int where "IMAGE_REL_BASED_ABSOLUTE = 0"
definition IMAGE_REL_BASED_HIGHLOW :: int where "IMAGE_REL_BASED_HIGHLOW = 3"
definition IMAGE_REL_BASED_HIGHADJ :: int where "IMAGE_REL_BASED_HIGHADJ = 4"
definition IMAGE_REL_BASED_DIR64 :: int where "IMAGE_REL_BASED_DIR64 = 10"

text \<open>
  \<open>WinReloc.relocate\<close>. The result is the returned value with the state after the call,
  or the exception raised. A relocation with a symbol is handed to \<open>relocate\<close> of the base
  class, which is not part of the sources at hand and is the parameter \<open>super_relocate\<close>.
  The base relocations return nothing (\<open>None\<close>).
\<close>

type_synonym relocate_result = "error + (bool option \<times> state)"

definition WinReloc_relocate ::
  "(reloc \<Rightarrow> obj_id list \<Rightarrow> bool \<Rightarrow> state \<Rightarrow> relocate_result) \<Rightarrow>
   reloc \<Rightarrow> obj_id list \<Rightarrow> bool \<Rightarrow> state \<Rightarrow> relocate_result" where
  "WinReloc_relocate super_relocate r solist bypass_compatibility st =
     (if rel_symbol r = None then
        if reloc_type r = Some IMAGE_REL_BASED_ABSOLUTE then Inr (None, st)
        else if reloc_type r = Some IMAGE_REL_BASED_HIGHLOW then
          (let org_bytes = read_bytes (memory (objs st (rel_owner r))) (rel_addr r) 4 in
           case struct_unpack 4 org_bytes of
             Inl e \<Rightarrow> Inl e
           | Inr org_value \<Rightarrow>
               (let rebased_value = to_mva (from_lva org_value (rel_owner r) st) st in
                case struct_pack 4 (rebased_value mod 2 ^ 32) of
                  Inl e \<Rightarrow> Inl e
                | Inr rebased_bytes \<Rightarrow>
                    Inr (None,
                         modify (rel_owner r)
                           (\<lambda>ob. ob\<lparr>memory := write_bytes (memory ob) (rel_addr r) rebased_bytes\<rparr>)
                           st)))
        else if reloc_type r = Some IMAGE_REL_BASED_DIR64 then
          (let org_bytes = read_bytes (memory (objs st (rel_owner r))) (rel_addr r) 8 in
           case struct_unpack 8 org_bytes of
             Inl e \<Rightarrow> Inl e
           | Inr org_value \<Rightarrow>
               (let rebased_value = to_mva (from_lva org_value (rel_owner r) st) st in
                case struct_pack 8 rebased_value of
                  Inl e \<Rightarrow> Inl e
                | Inr rebased_bytes \<Rightarrow>
                    Inr (None,
                         modify (rel_owner r)
                           (\<lambda>ob. ob\<lparr>memory := write_bytes (memory ob) (rel_addr r) rebased_bytes\<rparr>)
                           st)))
        else Inr (None, warning (Unimplemented_reloc_type (reloc_type r)) st)
      else super_relocate r solist bypass_compatibility st)"


section \<open>Sections\<close>

definition PESection :: "pe_section \<Rightarrow> int \<Rightarrow> Section" where
  "PESection pe_section remap_offset =
     \<lparr>sec_name = Name pe_section,
      file_address = Misc_PhysicalAddress pe_section,
      virtual_address = VirtualAddress pe_section + remap_offset,
      virtual_size = Misc_VirtualSize pe_section,
      characteristics = Characteristics pe_section\<rparr>"

definition is_readable :: "Section \<Rightarrow> bool" where
  "is_readable s = (characteristics s AND 0x40000000 \<noteq> 0)"

definition is_writable :: "Section \<Rightarrow> bool" where
  "is_writable s = (characteristics s AND 0x80000000 \<noteq> 0)"

definition is_executable :: "Section \<Rightarrow> bool" where
  "is_executable s = (characteristics s AND 0x20000000 \<noteq> 0)"


section \<open>The PE backend\<close>

text \<open>The decimal digits of a number, as \<open>%d\<close> prints them.\<close>

function string_of_nat :: "nat \<Rightarrow> string" where
  "string_of_nat n =
     (if n < 10 then [char_of (48 + n)]
      else string_of_nat (n div 10) @ [char_of (48 + n mod 10)])"
  by pat_completeness auto
termination
  by (relation "measure id") auto

text \<open>
  \<open>PE._handle_imports\<close>: one symbol and one relocation for each imported name; the
  relocation is to be resolved with the library of its import entry.
\<close>

definition handle_import :: "obj_id \<Rightarrow> import_desc \<Rightarrow> import_data \<Rightarrow> state \<Rightarrow> state" where
  "handle_import self entry imp st =
     (let imp_name =
        (case imp_name imp of
           None \<Rightarrow> dll entry @ ''.ordinal_import.'' @ string_of_nat (imp_ordinal imp)
         | Some n \<Rightarrow> n);
          symb = WinSymbol self (Some imp_name) 0 True False st;
          reloc = WinReloc self (Some symb) (imp_address imp) (Some (dll entry)) None None
      in modify self
           (\<lambda>ob. ob\<lparr>imports_dict := (imports_dict ob)(imp_name \<mapsto> reloc),
                    relocs := relocs ob @ [reloc]\<rparr>) st)"

definition PE_handle_imports :: "obj_id \<Rightarrow> state \<Rightarrow> state" where
  "PE_handle_imports self st =
     (case DIRECTORY_ENTRY_IMPORT (pe (objs st self)) of
        None \<Rightarrow> st
      | Some entries \<Rightarrow>
          fold (\<lambda>entry. fold (handle_import self entry) (imports_of entry)) entries st)"

text \<open>\<open>PE._handle_exports\<close>: the address of an exported symbol is the RVA of the table.\<close>

definition handle_export :: "obj_id \<Rightarrow> export_data \<Rightarrow> state \<Rightarrow> state" where
  "handle_export self exp st =
     (let symb = WinSymbol self (exp_name exp) (exp_address exp) False True st
      in modify self (\<lambda>ob. ob\<lparr>exports := (exports ob)(exp_name exp \<mapsto> symb)\<rparr>) st)"

definition PE_handle_exports :: "obj_id \<Rightarrow> state \<Rightarrow> state" where
  "PE_handle_exports self st =
     (case DIRECTORY_ENTRY_EXPORT (pe (objs st self)) of
        None \<Rightarrow> st
      | Some symbols \<Rightarrow> fold (handle_export self) symbols st)"

text \<open>
  \<open>PE._handle_relocs\<close>. The \<open>while\<close> loop over the entries of one block of the base
  relocation table, from position \<open>entry_idx\<close>; \<open>break\<close> leaves the loop with the state
  as it is.
\<close>

function handle_reloc_entries :: "obj_id \<Rightarrow> reloc_data list \<Rightarrow> nat \<Rightarrow> state \<Rightarrow> state" where
  "handle_reloc_entries self entries entry_idx st =
     (if entry_idx < length entries then
        (let reloc_data = entries ! entry_idx in
         if entry_type reloc_data = IMAGE_REL_BASED_HIGHADJ then
           (if entry_idx = length entries then warning Corrupt_reloc_table st
            else
              (let next_entry = entries ! entry_idx;
                   reloc = WinReloc self None (entry_rva reloc_data) None
                             (Some (entry_type reloc_data)) (Some (entry_rva next_entry))
               in handle_reloc_entries self entries (entry_idx + 1 + 1)
                    (modify self (\<lambda>ob. ob\<lparr>relocs := relocs ob @ [reloc]\<rparr>) st)))
         else
           (let reloc = WinReloc self None (entry_rva reloc_data) None
                          (Some (entry_type reloc_data)) None
            in handle_reloc_entries self entries (entry_idx + 1)
                 (modify self (\<lambda>ob. ob\<lparr>relocs := relocs ob @ [reloc]\<rparr>) st)))
      else st)"
  by pat_completeness auto
termination
  by (relation "measure (\<lambda>(self, entries, entry_idx, st). length entries - entry_idx)") auto

definition PE_handle_relocs :: "obj_id \<Rightarrow> state \<Rightarrow> state" where
  "PE_handle_relocs self st =
     (case DIRECTORY_ENTRY_BASERELOC (pe (objs st self)) of
        None \<Rightarrow> st
      | Some blocks \<Rightarrow>
          fold (\<lambda>base_reloc. handle_reloc_entries self base_reloc 0) blocks st)"

text \<open>
  \<open>get_dword_at_rva\<close> of the parsing library: the little-endian value of the four bytes
  that \<open>get_data\<close> finds at an RVA, \<open>None\<close> where the raw data does not have four
  bytes.
\<close>

definition get_dword_at_rva :: "pefile \<Rightarrow> int \<Rightarrow> int option" where
  "get_dword_at_rva p rva =
     (let data = read_bytes (raw_data p) rva 4
      in if length data = 4 then Some (unpack_le data) else None)"

text \<open>
  \<open>PE._register_tls_callbacks\<close>. The loop ends only when it reads a zero, so it is a
  partial function: \<open>None\<close> is a scan that never returns. A word the library could not
  read is Python's \<open>None\<close>, which differs from 0 and is appended like any other.
\<close>

partial_function (option) tls_callback_loop ::
  "pefile \<Rightarrow> int \<Rightarrow> int option \<Rightarrow> int option list \<Rightarrow> int option list option" where
  "tls_callback_loop p callback_rva callback callbacks =
     (if callback \<noteq> Some 0 then
        tls_callback_loop p (callback_rva + 4) (get_dword_at_rva p (callback_rva + 4))
          (callbacks @ [callback])
      else Some callbacks)"

definition PE_register_tls_callbacks :: "obj_id \<Rightarrow> int \<Rightarrow> state \<Rightarrow> int option list option" where
  "PE_register_tls_callbacks self addr st =
     (let callback_rva = to_rva (from_lva addr self st) st;
          callback = get_dword_at_rva (pe (objs st self)) callback_rva
      in tls_callback_loop (pe (objs st self)) callback_rva callback [])"

definition PE_register_tls :: "obj_id \<Rightarrow> state \<Rightarrow> state option" where
  "PE_register_tls self st =
     (case DIRECTORY_ENTRY_TLS (pe (objs st self)) of
        None \<Rightarrow> Some st
      | Some tls \<Rightarrow>
          (case PE_register_tls_callbacks self (AddressOfCallBacks tls) st of
             None \<Rightarrow> None
           | Some callbacks \<Rightarrow>
               Some (modify self
                 (\<lambda>ob. ob\<lparr>tls_used := True,
                          tls_data_start := Some (StartAddressOfRawData tls),
                          tls_data_size :=
                            Some (EndAddressOfRawData tls - StartAddressOfRawData tls),
                          tls_index_address := Some (AddressOfIndex tls),
                          tls_callbacks := Some callbacks,
                          tls_size_of_zero_fill := Some (SizeOfZeroFill tls)\<rparr>) st)))"

text \<open>\<open>PE._register_sections\<close>: every section is wrapped with the linked base as offset.\<close>

definition register_section :: "obj_id \<Rightarrow> pe_section \<Rightarrow> state \<Rightarrow> state" where
  "register_section self pe_section st =
     (let section = PESection pe_section (linked_base (objs st self))
      in modify self
           (\<lambda>ob. ob\<lparr>sections := sections ob @ [section],
                    sections_map := (sections_map ob)(sec_name section \<mapsto> section)\<rparr>) st)"

definition PE_register_sections :: "obj_id \<Rightarrow> state \<Rightarrow> state" where
  "PE_register_sections self st =
     fold (register_section self) (pe_sections (pe (objs st self))) st"

text \<open>\<open>os.path.basename\<close>: what follows the last slash of a path.\<close>

definition basename :: "string \<Rightarrow> string" where
  "basename path = rev (takeWhile (\<lambda>c. c \<noteq> CHR ''/'') (rev path))"

text \<open>
  \<open>PE.__init__\<close>, from the point where the file has been parsed into \<open>p\<close> and the
  architecture is known: the object \<open>self\<close> of the store has been set up by the
  constructor of the base class, which is not part of the sources at hand. Both bases are
  the image base of the file. The attributes \<open>os\<close>, \<open>segments\<close> (another name of
  \<open>sections\<close>), \<open>linking\<close> and \<open>jmprel\<close> (another name of the imports) are
  not kept. The result is \<open>None\<close> when the scan of the TLS callbacks does not return.
\<close>

definition PE_init :: "obj_id \<Rightarrow> string option \<Rightarrow> bool \<Rightarrow> pefile \<Rightarrow> state \<Rightarrow> state option" where
  "PE_init self binary is_main_bin p st =
     (let st = modify self
                 (\<lambda>ob. ob\<lparr>pe := p, mapped_base := ImageBase p, linked_base := ImageBase p\<rparr>) st;
          st = modify self
                 (\<lambda>ob. ob\<lparr>obj_entry := to_lva (from_rva (AddressOfEntryPoint p) self st) st\<rparr>) st;
          st = modify self
                 (\<lambda>ob. ob\<lparr>deps := (case DIRECTORY_ENTRY_IMPORT p of
                                      None \<Rightarrow> []
                                    | Some entries \<Rightarrow> map dll entries)\<rparr>) st;
          st = modify self
                 (\<lambda>ob. ob\<lparr>provides := (case binary of
                                          None \<Rightarrow> None
                                        | Some path \<Rightarrow>
                                            if \<not> is_main_bin then Some (basename path)
                                            else None)\<rparr>) st;
          st = modify self
                 (\<lambda>ob. ob\<lparr>tls_used := False, tls_data_start := None, tls_data_size := None,
                          tls_index_address := None, tls_callbacks := None,
                          tls_size_of_zero_fill := None, exports := Map.empty\<rparr>) st;
          st = PE_handle_imports self st;
          st = PE_handle_exports self st;
          st = PE_handle_relocs self st
      in case PE_register_tls self st of
           None \<Rightarrow> None
         | Some st \<Rightarrow>
             (let st = PE_register_sections self st
              in Some (modify self
                         (\<lambda>ob. ob\<lparr>memory := memory ob ++ memory_mapped_image p\<rparr>) st)))"


section \<open>The loader\<close>

text \<open>
  \<open>MockBackend\<close> of the overlap test: an object with both bases at \<open>linked_base\<close> and an
  extent of \<open>size\<close>; its \<open>get_max_addr\<close> is the end of its mapped range.
\<close>

definition MockBackend :: "obj_id \<Rightarrow> int \<Rightarrow> int \<Rightarrow> state \<Rightarrow> state" where
  "MockBackend self lb sz st =
     modify self (\<lambda>ob. ob\<lparr>mapped_base := lb, linked_base := lb, size_of := sz\<rparr>) st"

definition get_max_addr :: "backend \<Rightarrow> int" where
  "get_max_addr ob = mapped_base ob + size_of ob"

text \<open>
  The half-open ranges \<open>[a, a + ea)\<close> and \<open>[b, b + eb)\<close> have an address in common.
\<close>

definition ranges_intersect :: "int \<Rightarrow> int \<Rightarrow> int \<Rightarrow> int \<Rightarrow> bool" where
  "ranges_intersect a ea b eb = (max a b < min (a + ea) (b + eb))"

text \<open>
  Modelled from the spec: \<open>Loader.add_object\<close> is not part of the sources at hand.
  Section 4.4 of the specification: the desired base is the link base and the extent the
  size of the image; there is a conflict when the desired range intersects the range of
  an object placed before; without conflict the object is mapped at the desired base,
  with a conflict at the highest end address of the objects placed before; the object is
  appended to the list of placed objects; then (step 6) the addresses of the object are
  translated "now that \<open>mapped_base\<close> is final": the stored virtual address of each of
  its sections goes from LVA to MVA. The entry point stays the LVA and the address of a
  symbol the RVA that section 3 of the specification makes them; they are translated when
  they are read (\<open>rebased_addr\<close>).
\<close>

definition translate_section :: "obj_id \<Rightarrow> state \<Rightarrow> Section \<Rightarrow> Section" where
  "translate_section obj st s =
     s\<lparr>virtual_address := to_mva (from_lva (virtual_address s) obj st) st\<rparr>"

definition conflict :: "obj_id \<Rightarrow> state \<Rightarrow> bool" where
  "conflict obj st =
     list_ex (\<lambda>p. ranges_intersect (linked_base (objs st obj)) (size_of (objs st obj))
                    (mapped_base (objs st p)) (size_of (objs st p)))
       (placed st)"

definition add_object :: "obj_id \<Rightarrow> state \<Rightarrow> state" where
  "add_object obj st =
     (let desired = linked_base (objs st obj);
          base = (if conflict obj st
                  then Max (set (map (\<lambda>p. get_max_addr (objs st p)) (placed st)))
                  else desired);
          st' = (modify obj (\<lambda>ob. ob\<lparr>mapped_base := base\<rparr>) st)\<lparr>placed := placed st @ [obj]\<rparr>
      in modify obj
           (\<lambda>ob. ob\<lparr>sections := map (translate_section obj st') (sections ob),
                    sections_map := map_option (translate_section obj st') \<circ> sections_map ob\<rparr>)
           st')"

text \<open>No two objects at different positions of the list of placed objects intersect.\<close>

definition non_overlapping :: "state \<Rightarrow> bool" where
  "non_overlapping st =
     (\<forall>i < length (placed st). \<forall>j < length (placed st). i \<noteq> j \<longrightarrow>
        \<not> ranges_intersect
            (mapped_base (objs st (placed st ! i))) (size_of (objs st (placed st ! i)))
            (mapped_base (objs st (placed st ! j))) (size_of (objs st (placed st ! j))))"


section \<open>Example objects\<close>

text \<open>A parsed file, an object and a store without content: the start of the examples.\<close>

definition blank_pefile :: pefile where
  "blank_pefile =
     \<lparr>ImageBase = 0, AddressOfEntryPoint = 0, DIRECTORY_ENTRY_IMPORT = None,
      DIRECTORY_ENTRY_EXPORT = None, DIRECTORY_ENTRY_BASERELOC = None,
      DIRECTORY_ENTRY_TLS = None, pe_sections = [], raw_data = Map.empty,
      memory_mapped_image = Map.empty\<rparr>"

definition blank_backend :: backend where
  "blank_backend =
     \<lparr>linked_base = 0, mapped_base = 0, size_of = 0, arch_bytes = 4, provides = None,
      pe = blank_pefile, obj_entry = 0, deps = [], exports = Map.empty,
      imports_dict = Map.empty, relocs = [], sections = [], sections_map = Map.empty,
      memory = Map.empty, tls_used = False, tls_data_start = None, tls_data_size = None,
      tls_index_address = None, tls_callbacks = None, tls_size_of_zero_fill = None\<rparr>"

definition blank_state :: state where
  "blank_state = \<lparr>objs = (\<lambda>_. blank_backend), warnings = [], placed = []\<rparr>"

definition with_object :: "obj_id \<Rightarrow> backend \<Rightarrow> state \<Rightarrow> state" where
  "with_object i ob st = st\<lparr>objs := (objs st)(i := ob)\<rparr>"

text \<open>
  Two libraries that export the same name \<open>f\<close>: object 1 is \<open>other.dll\<close>, object 2 is
  \<open>lib.dll\<close>, mapped away from its link base. Object 0 imports \<open>f\<close> from \<open>lib.dll\<close>.
\<close>

definition sym_f_other :: symbol where
  "sym_f_other =
     \<lparr>sym_owner = 1, sym_name = Some ''f'', sym_addr = 0x1000, sym_size = 4,
      is_import = False, is_export = True\<rparr>"

definition sym_f_lib :: symbol where
  "sym_f_lib =
     \<lparr>sym_owner = 2, sym_name = Some ''f'', sym_addr = 0x2000, sym_size = 4,
      is_import = False, is_export = True\<rparr>"

definition sym_f_import :: symbol where
  "sym_f_import =
     \<lparr>sym_owner = 0, sym_name = Some ''f'', sym_addr = 0, sym_size = 4,
      is_import = True, is_export = False\<rparr>"

definition import_reloc :: reloc where
  "import_reloc = WinReloc 0 (Some sym_f_import) 0x3000 (Some ''lib.dll'') None None"

definition libs_state :: state where
  "libs_state =
     with_object 1
       (blank_backend\<lparr>linked_base := 0x10000000, mapped_base := 0x10000000,
          provides := Some ''other.dll'', exports := [Some ''f'' \<mapsto> sym_f_other]\<rparr>)
       (with_object 2
          (blank_backend\<lparr>linked_base := 0x10000000, mapped_base := 0x20000000,
             provides := Some ''lib.dll'', exports := [Some ''f'' \<mapsto> sym_f_lib]\<rparr>)
          blank_state)"

text \<open>
  An object linked at \<open>0x400000\<close> and mapped at \<open>0x500000\<close>, whose memory holds the
  address \<open>0x401000\<close> at offset \<open>0x10\<close>; and a base class that relocates nothing.
\<close>

definition patch_state :: state where
  "patch_state =
     with_object 0
       (blank_backend\<lparr>linked_base := 0x400000, mapped_base := 0x500000,
          memory := [0x10 \<mapsto> 0x00, 0x11 \<mapsto> 0x10, 0x12 \<mapsto> 0x40, 0x13 \<mapsto> 0x00]\<rparr>)
       blank_state"

definition no_relocate :: "reloc \<Rightarrow> obj_id list \<Rightarrow> bool \<Rightarrow> state \<Rightarrow> relocate_result" where
  "no_relocate r solist bypass_compatibility st = Inr (Some False, st)"

text \<open>Object 0 with a base relocation table, and two tables with a \<open>HIGHADJ\<close> entry.\<close>

definition reloc_table_state :: "reloc_data list list \<Rightarrow> state" where
  "reloc_table_state blocks =
     with_object 0
       (blank_backend\<lparr>pe := blank_pefile\<lparr>DIRECTORY_ENTRY_BASERELOC := Some blocks\<rparr>\<rparr>)
       blank_state"

definition highadj_pair :: "reloc_data list" where
  "highadj_pair =
     [\<lparr>entry_rva = 0x1000, entry_type = IMAGE_REL_BASED_HIGHADJ\<rparr>,
      \<lparr>entry_rva = 0x2000, entry_type = IMAGE_REL_BASED_HIGHLOW\<rparr>,
      \<lparr>entry_rva = 0x3000, entry_type = IMAGE_REL_BASED_HIGHLOW\<rparr>]"

definition highadj_last :: "reloc_data list" where
  "highadj_last = [\<lparr>entry_rva = 0x1000, entry_type = IMAGE_REL_BASED_HIGHADJ\<rparr>]"

text \<open>
  The addresses of the sections of an object as they are stored, and the addresses of the
  section records of its file plus the mapped base of the object.
\<close>

definition section_addresses :: "obj_id \<Rightarrow> state \<Rightarrow> int list" where
  "section_addresses obj st = map virtual_address (sections (objs st obj))"

definition mapped_section_addresses :: "obj_id \<Rightarrow> state \<Rightarrow> int list" where
  "mapped_section_addresses obj st =
     map (\<lambda>s. VirtualAddress s + mapped_base (objs st obj)) (pe_sections (pe (objs st obj)))"

text \<open>
  Two states agree on the list of placed objects and on the bases, the extent, the parsed
  file and the sections of every object.
\<close>

definition same_layout :: "state \<Rightarrow> state \<Rightarrow> bool" where
  "same_layout st st' =
     (placed st' = placed st \<and>
      (\<forall>i. linked_base (objs st' i) = linked_base (objs st i) \<and>
           mapped_base (objs st' i) = mapped_base (objs st i) \<and>
           size_of (objs st' i) = size_of (objs st i) \<and>
           pe (objs st' i) = pe (objs st i) \<and>
           sections (objs st' i) = sections (objs st i)))"

text \<open>
  Two images of the same file, with image base \<open>0x400000\<close>, an extent of \<open>0x3000\<close> and
  one section at RVA \<open>0x1000\<close>: object 0 is constructed and added to the loader, then
  object 1 is constructed; the loader has to displace it when it is added.
\<close>

definition sec_pefile :: pefile where
  "sec_pefile =
     blank_pefile\<lparr>ImageBase := 0x400000,
       pe_sections :=
         [\<lparr>Name = ''.text'', Misc_PhysicalAddress = 0x2345, VirtualAddress = 0x1000,
           Misc_VirtualSize = 0x2345, Characteristics = 0x60000020\<rparr>]\<rparr>"

definition sec_start :: state where
  "sec_start = blank_state\<lparr>objs := (\<lambda>_. blank_backend\<lparr>size_of := 0x3000\<rparr>)\<rparr>"

definition first_image :: "state option" where
  "first_image =
     map_option (add_object 0) (PE_init 0 (Some ''/bin/main.exe'') True sec_pefile sec_start)"

definition second_image :: "state option" where
  "second_image =
     Option.bind first_image (PE_init 1 (Some ''/lib/lib.dll'') False sec_pefile)"

text \<open>
  The objects of the overlap test: a base object at \<open>0x8048000\<close> (here with an extent of
  \<open>0x1000\<close>) and the two mock objects.
\<close>

definition overlap_start :: state where
  "overlap_start =
     MockBackend 2 0x8047000 0x1000
       (MockBackend 1 0x8047000 0x2000 (MockBackend 0 0x8048000 0x1000 blank_state))"

text \<open>
  A 64-bit image linked at \<open>0x140000000\<close>. Its TLS callback array is at RVA \<open>0x2000\<close>,
  in the raw data of a section: one callback, \<open>0x140001000\<close>, and the zero terminator,
  each a word of eight bytes.
\<close>

definition tls64_image :: memory where
  "tls64_image = write_bytes Map.empty 0x2000 (pack_le 8 0x140001000 @ pack_le 8 0)"

definition tls64_state :: state where
  "tls64_state =
     with_object 0
       (blank_backend\<lparr>linked_base := 0x140000000, mapped_base := 0x140000000,
          arch_bytes := 8,
          pe := blank_pefile\<lparr>ImageBase := 0x140000000, raw_data := tls64_image,
                  memory_mapped_image := tls64_image\<rparr>\<rparr>)
       blank_state"


section \<open>Properties\<close>

declare handle_reloc_entries.simps [simp del]
declare string_of_nat.simps [simp del]

lemmas example_defs =
  with_object_def blank_state_def blank_backend_def blank_pefile_def WinReloc_def

subsection \<open>Rebased addresses\<close>

text \<open>
  Claim C4: the \<open>rebased_addr\<close> of a Windows symbol and of a Windows relocation is the
  translation of the stored address as an RVA, the mapped base of the owner plus the
  address; it is the translation of the address as an LVA only for an owner linked at 0.
\<close>

theorem rebased_addr_is_rva_to_mva:
  "WinSymbol_rebased_addr s st = mapped_base (objs st (sym_owner s)) + sym_addr s \<and>
   WinReloc_rebased_addr r st = mapped_base (objs st (rel_owner r)) + rel_addr r \<and>
   (WinSymbol_rebased_addr s st = to_mva (from_lva (sym_addr s) (sym_owner s) st) st
      \<longleftrightarrow> linked_base (objs st (sym_owner s)) = 0) \<and>
   (WinReloc_rebased_addr r st = to_mva (from_lva (rel_addr r) (rel_owner r) st) st
      \<longleftrightarrow> linked_base (objs st (rel_owner r)) = 0)"
  by (simp add: WinSymbol_rebased_addr_def WinReloc_rebased_addr_def to_mva_def
      from_rva_def from_lva_def)

theorem rebased_addr_is_rva_to_mva_witness:
  "WinSymbol_rebased_addr sym_f_lib libs_state = 0x20002000 \<and>
   WinReloc_rebased_addr import_reloc libs_state = 0x3000 \<and>
   to_mva (from_lva (sym_addr sym_f_lib) (sym_owner sym_f_lib) libs_state) libs_state
     = 0x10002000"
  using rebased_addr_is_rva_to_mva [of sym_f_lib libs_state import_reloc]
  by (simp add: sym_f_lib_def libs_state_def import_reloc_def example_defs
      to_mva_def from_lva_def)

subsection \<open>The value of a relocation\<close>

text \<open>
  Claim C10: reading \<open>value\<close> of a relocation that is not resolved returns \<open>None\<close>
  and raises nothing; \<open>value\<close> is an address only for a resolved relocation, and then
  it is the rebased address of the symbol that resolved it.
\<close>

theorem value_none_unless_resolved:
  "(\<not> resolved r \<longrightarrow> WinReloc_value r st = Inr None) \<and>
   (WinReloc_value r st = Inr (Some a) \<longrightarrow>
      resolved r \<and> (\<exists>s. resolvedby r = Some s \<and> a = WinSymbol_rebased_addr s st))"
  by (auto simp: WinReloc_value_def split: option.splits if_splits)

theorem value_none_unless_resolved_witness:
  "WinReloc_value import_reloc libs_state = Inr None \<and>
   WinReloc_value (import_reloc\<lparr>resolved := True, resolvedby := Some sym_f_lib\<rparr>) libs_state
     = Inr (Some 0x20002000) \<and>
   WinSymbol_rebased_addr sym_f_lib libs_state = 0x20002000"
  using value_none_unless_resolved [of import_reloc libs_state]
    value_none_unless_resolved
      [of "import_reloc\<lparr>resolved := True, resolvedby := Some sym_f_lib\<rparr>" libs_state
          "0x20002000"]
  by (simp add: import_reloc_def WinReloc_value_def WinSymbol_rebased_addr_def
      to_mva_def from_rva_def sym_f_lib_def libs_state_def example_defs)

subsection \<open>Resolution against providers\<close>

lemma first_match_Some:
  "first_match name solist st = Some s \<Longrightarrow>
     \<exists>so \<in> set solist. PE_get_symbol (objs st so) name = Some s"
  by (induction solist) (auto split: option.splits)

lemma first_match_None:
  "first_match name solist st = None \<longleftrightarrow>
     (\<forall>so \<in> set solist. PE_get_symbol (objs st so) name = None)"
  by (induction solist) (auto split: option.splits)

text \<open>
  Claim C3: for an import relocation, \<open>resolve_symbol\<close> without
  \<open>bypass_compatibility\<close> resolves only with a symbol that a candidate with
  \<open>provides\<close> equal to the provider name of the relocation exports; when no such
  candidate exports the name the relocation stays unresolved, whatever the other
  candidates export. With \<open>bypass_compatibility\<close> all candidates are searched.
\<close>

theorem resolve_symbol_provider_constraint:
  assumes "rel_symbol r = Some sy"
  shows "(WinReloc_resolve_symbol r solist False st = Inr (True, r') \<longrightarrow>
            (\<exists>so \<in> set solist. provides (objs st so) = resolvewith r \<and>
               PE_get_symbol (objs st so) (sym_name sy) = resolvedby r' \<and>
               resolvedby r' \<noteq> None))
       \<and> ((\<forall>so \<in> set solist. provides (objs st so) = resolvewith r \<longrightarrow>
               PE_get_symbol (objs st so) (sym_name sy) = None) \<longrightarrow>
            WinReloc_resolve_symbol r solist False st = Inr (False, r))
       \<and> WinReloc_resolve_symbol r solist True st = Relocation_resolve_symbol r solist st
       \<and> (WinReloc_resolve_symbol r solist True st = Inr (False, r) \<longleftrightarrow>
            (\<forall>so \<in> set solist. PE_get_symbol (objs st so) (sym_name sy) = None))"
  using assms
  by (auto simp: WinReloc_resolve_symbol_def Relocation_resolve_symbol_def first_match_None
      split: option.splits dest!: first_match_Some)

theorem resolve_symbol_provider_constraint_witness:
  "WinReloc_resolve_symbol import_reloc [1, 2] False libs_state
     = Inr (True, import_reloc\<lparr>resolved := True, resolvedby := Some sym_f_lib\<rparr>) \<and>
   WinReloc_resolve_symbol import_reloc [1] False libs_state = Inr (False, import_reloc) \<and>
   WinReloc_resolve_symbol import_reloc [1, 2] True libs_state
     = Inr (True, import_reloc\<lparr>resolved := True, resolvedby := Some sym_f_other\<rparr>) \<and>
   WinReloc_resolve_symbol import_reloc [] True libs_state = Inr (False, import_reloc)"
  using resolve_symbol_provider_constraint [of import_reloc sym_f_import "[1, 2]" libs_state
          "import_reloc\<lparr>resolved := True, resolvedby := Some sym_f_lib\<rparr>"]
        resolve_symbol_provider_constraint [of import_reloc sym_f_import "[1]" libs_state
          import_reloc]
        resolve_symbol_provider_constraint [of import_reloc sym_f_import "[]" libs_state
          import_reloc]
  by (simp add: import_reloc_def WinReloc_resolve_symbol_def Relocation_resolve_symbol_def
      PE_get_symbol_def sym_f_import_def libs_state_def example_defs)

subsection \<open>Patching a base relocation\<close>

lemma write_bytes_below: "k < a \<Longrightarrow> write_bytes m a bs k = m k"
  by (induction bs arbitrary: m a) auto

lemma read_write_bytes: "read_bytes (write_bytes m a bs) a (length bs) = bs"
  by (induction bs arbitrary: m a) (auto simp: write_bytes_below)

lemma length_pack_le: "length (pack_le n v) = n"
  by (induction n arbitrary: v) auto

text \<open>\<open>pack_le\<close> is the little-endian encoding: reading it back gives the value.\<close>

lemma unpack_pack_le: "unpack_le (pack_le n v) = v mod 2 ^ (8 * n)"
proof (induction n arbitrary: v)
  case 0
  then show ?case by simp
next
  case (Suc n)
  have "uint (word_of_int (v mod 256) :: byte) = v mod 256"
    by (simp add: uint_word_of_int)
  moreover have "v mod 256 + 256 * ((v div 256) mod 2 ^ (8 * n)) = v mod (256 * 2 ^ (8 * n))"
    using zmod_zmult2_eq [of "2 ^ (8 * n)" v 256] by simp
  moreover have "(256::int) * 2 ^ (8 * n) = 2 ^ (8 * Suc n)"
    by (simp add: power_add)
  ultimately show ?case using Suc.IH by simp
qed

lemma read_bytes_numeral:
  "read_bytes m a (numeral k) =
     (case m a of None \<Rightarrow> [] | Some b \<Rightarrow> b # read_bytes m (a + 1) (pred_numeral k))"
  by (simp add: numeral_eq_Suc)

lemma pack_le_numeral:
  "pack_le (numeral k) v = word_of_int (v mod 256) # pack_le (pred_numeral k) (v div 256)"
  by (simp add: numeral_eq_Suc)

text \<open>
  Claim C2: a \<open>HIGHLOW\<close> base relocation (no symbol) whose patch site holds four bytes,
  the little-endian encoding of \<open>V\<close>, returns normally and leaves at the site the
  four-byte little-endian encoding of \<open>(mapped_base + (V - link_base)) mod 2^32\<close> for
  the bases of the owning object.
\<close>

theorem relocate_highlow_patch:
  assumes "rel_symbol r = None" and "reloc_type r = Some IMAGE_REL_BASED_HIGHLOW"
    and "length (read_bytes (memory (objs st (rel_owner r))) (rel_addr r) 4) = 4"
    and "unpack_le (read_bytes (memory (objs st (rel_owner r))) (rel_addr r) 4) = V"
  shows "\<exists>st'. WinReloc_relocate super_relocate r solist bypass_compatibility st
                 = Inr (None, st') \<and>
           read_bytes (memory (objs st' (rel_owner r))) (rel_addr r) 4 =
             pack_le 4 ((mapped_base (objs st (rel_owner r))
                          + (V - linked_base (objs st (rel_owner r)))) mod 2 ^ 32)"
proof -
  let ?mem = "memory (objs st (rel_owner r))"
  let ?v = "(mapped_base (objs st (rel_owner r))
              + (V - linked_base (objs st (rel_owner r)))) mod 2 ^ 32"
  have v: "0 \<le> ?v" "?v < 2 ^ 32" by simp_all
  have mva: "to_mva (from_lva V (rel_owner r) st) st mod 2 ^ 32 = ?v"
    by (simp add: to_mva_def from_lva_def algebra_simps)
  have pk: "struct_pack 4 ?v = Inr (pack_le 4 ?v)"
    using v unfolding struct_pack_def by simp
  have rel: "WinReloc_relocate super_relocate r solist bypass_compatibility st =
        Inr (None, modify (rel_owner r)
               (\<lambda>ob. ob\<lparr>memory := write_bytes (memory ob) (rel_addr r) (pack_le 4 ?v)\<rparr>) st)"
    using assms pk mva
    unfolding WinReloc_relocate_def IMAGE_REL_BASED_ABSOLUTE_def IMAGE_REL_BASED_HIGHLOW_def
    by (simp add: struct_unpack_def Let_def del: pack_le.simps)
  have "read_bytes (write_bytes ?mem (rel_addr r) (pack_le 4 ?v)) (rel_addr r)
          (length (pack_le 4 ?v)) = pack_le 4 ?v"
    by (rule read_write_bytes)
  then have "read_bytes (write_bytes ?mem (rel_addr r) (pack_le 4 ?v)) (rel_addr r) 4
               = pack_le 4 ?v"
    by (simp only: length_pack_le)
  then show ?thesis
    unfolding rel by (simp add: modify_def del: pack_le.simps read_bytes.simps)
qed

theorem relocate_highlow_patch_witness:
  "\<exists>st'. WinReloc_relocate no_relocate
            (WinReloc 0 None 0x10 None (Some IMAGE_REL_BASED_HIGHLOW) None) [] False patch_state
          = Inr (None, st') \<and>
         read_bytes (memory (objs st' 0)) 0x10 4 = [0x00, 0x10, 0x50, 0x00]"
proof -
  let ?r = "WinReloc 0 None 0x10 None (Some IMAGE_REL_BASED_HIGHLOW) None"
  let ?site = "read_bytes (memory (objs patch_state (rel_owner ?r))) (rel_addr ?r) 4"
  have rd: "?site = [0x00, 0x10, 0x40, 0x00]"
    by (simp add: patch_state_def example_defs read_bytes_numeral)
  have 1: "rel_symbol ?r = None" and 2: "reloc_type ?r = Some IMAGE_REL_BASED_HIGHLOW"
    by (simp_all add: WinReloc_def)
  have 3: "length ?site = 4"
    by (simp only: rd) simp
  have 4: "unpack_le ?site = 0x401000"
    by (simp only: rd) simp
  have pk: "pack_le 4 ((mapped_base (objs patch_state (rel_owner ?r)) +
               (0x401000 - linked_base (objs patch_state (rel_owner ?r)))) mod 2 ^ 32)
            = [0x00, 0x10, 0x50, 0x00]"
    by (simp add: patch_state_def example_defs pack_le_numeral)
  have own: "rel_owner ?r = 0" "rel_addr ?r = 0x10"
    by (simp_all add: WinReloc_def)
  from relocate_highlow_patch [OF 1 2 3 4, of no_relocate "[]" False]
  show ?thesis unfolding pk unfolding own .
qed

subsection \<open>The scan of the base relocation table\<close>

lemma handle_reloc_entries_other:
  assumes "entry_idx < length entries"
    and "entry_type (entries ! entry_idx) \<noteq> IMAGE_REL_BASED_HIGHADJ"
  shows "handle_reloc_entries self entries entry_idx st =
         handle_reloc_entries self entries (entry_idx + 1)
           (modify self (\<lambda>ob. ob\<lparr>relocs := relocs ob @
               [WinReloc self None (entry_rva (entries ! entry_idx)) None
                  (Some (entry_type (entries ! entry_idx))) None]\<rparr>) st)"
  using assms by (subst handle_reloc_entries.simps) (simp add: Let_def)

text \<open>
  A \<open>HIGHADJ\<close> entry at any position of the table, the last one too, is recorded with its
  own RVA as \<open>next_rva\<close>, and the scan goes on two positions further.
\<close>

lemma handle_reloc_entries_highadj:
  assumes "entry_idx < length entries"
    and "entry_type (entries ! entry_idx) = IMAGE_REL_BASED_HIGHADJ"
  shows "handle_reloc_entries self entries entry_idx st =
         handle_reloc_entries self entries (entry_idx + 2)
           (modify self (\<lambda>ob. ob\<lparr>relocs := relocs ob @
               [WinReloc self None (entry_rva (entries ! entry_idx)) None
                  (Some IMAGE_REL_BASED_HIGHADJ) (Some (entry_rva (entries ! entry_idx)))]\<rparr>)
              st)"
  using assms by (subst handle_reloc_entries.simps) (simp add: Let_def)

lemma handle_reloc_entries_end:
  "length entries \<le> entry_idx \<Longrightarrow> handle_reloc_entries self entries entry_idx st = st"
  by (subst handle_reloc_entries.simps) simp

lemma warnings_modify: "warnings (modify i f st) = warnings st"
  by (simp add: modify_def)

text \<open>The scan of a block never logs anything: the test for a corrupt table cannot hold.\<close>

lemma handle_reloc_entries_warnings:
  "warnings (handle_reloc_entries self entries entry_idx st) = warnings st"
proof (induction self entries entry_idx st rule: handle_reloc_entries.induct)
  case (1 self entries entry_idx st)
  show ?case
  proof (cases "entry_idx < length entries")
    case False
    then show ?thesis by (simp add: handle_reloc_entries_end)
  next
    case True
    show ?thesis
    proof (cases "entry_type (entries ! entry_idx) = IMAGE_REL_BASED_HIGHADJ")
      case h: True
      have "entry_idx \<noteq> length entries" using True by simp
      from "1.IH"(1)[OF True refl h this refl refl]
      show ?thesis
        using True h
        by (subst handle_reloc_entries.simps) (simp add: Let_def warnings_modify)
    next
      case h: False
      from "1.IH"(2)[OF True refl h refl]
      show ?thesis
        using True h
        by (subst handle_reloc_entries.simps) (simp add: Let_def warnings_modify)
    qed
  qed
qed



text \<open>
  Claim C5: in a table with a \<open>HIGHADJ\<close> entry followed by more entries the scan
  consumes two entries and records one relocation, whose \<open>next_rva\<close> should be the RVA
  of the following entry. The scan of the table \<open>highadj_pair\<close> skips the entry at
  \<open>0x2000\<close> and goes on with the one at \<open>0x3000\<close>, but the relocation it records for
  the \<open>HIGHADJ\<close> entry at \<open>0x1000\<close> has \<open>next_rva = 0x1000\<close>, the RVA of the entry
  itself, not \<open>0x2000\<close>.
\<close>

theorem highadj_next_rva_is_own_rva:
  "relocs (objs (PE_handle_relocs 0 (reloc_table_state [highadj_pair])) 0) =
     [WinReloc 0 None 0x1000 None (Some IMAGE_REL_BASED_HIGHADJ) (Some 0x1000),
      WinReloc 0 None 0x3000 None (Some IMAGE_REL_BASED_HIGHLOW) None]"
  by (simp add: PE_handle_relocs_def reloc_table_state_def example_defs highadj_pair_def
      handle_reloc_entries.simps IMAGE_REL_BASED_HIGHADJ_def IMAGE_REL_BASED_HIGHLOW_def
      modify_def Let_def)

text \<open>
  Claim C6: a table that ends with a \<open>HIGHADJ\<close> entry should make the scan stop with a
  warning and record nothing for that entry. The scan of the table \<open>highadj_last\<close>
  records a relocation for its only entry, with the entry's own RVA as \<open>next_rva\<close>, and
  logs no warning.
\<close>

theorem highadj_truncated_is_recorded:
  "relocs (objs (PE_handle_relocs 0 (reloc_table_state [highadj_last])) 0) =
     [WinReloc 0 None 0x1000 None (Some IMAGE_REL_BASED_HIGHADJ) (Some 0x1000)] \<and>
   warnings (PE_handle_relocs 0 (reloc_table_state [highadj_last])) = []"
  by (simp add: PE_handle_relocs_def reloc_table_state_def example_defs highadj_last_def
      handle_reloc_entries.simps IMAGE_REL_BASED_HIGHADJ_def modify_def Let_def)

subsection \<open>The scan of the TLS callbacks\<close>

lemma length_read_bytes: "length (read_bytes m a n) \<le> n"
  by (induction n arbitrary: a) (auto split: option.splits)

lemma read_bytes_add:
  "read_bytes m a (n + k) =
     (if length (read_bytes m a n) = n then read_bytes m a n @ read_bytes m (a + int n) k
      else read_bytes m a n)"
proof (induction n arbitrary: a)
  case 0
  then show ?case by simp
next
  case (Suc n)
  show ?case
  proof (cases "m a")
    case None
    then show ?thesis by simp
  next
    case (Some b)
    then show ?thesis using Suc.IH [of "a + 1"] by (simp add: algebra_simps)
  qed
qed

lemma read_bytes_split:
  assumes "read_bytes m a (n + k) = xs @ ys" and "length xs = n" and "length ys = k"
  shows "read_bytes m a n = xs \<and> read_bytes m (a + int n) k = ys"
proof (cases "length (read_bytes m a n) = n")
  case True
  then have "read_bytes m a n @ read_bytes m (a + int n) k = xs @ ys"
    using assms(1) by (simp add: read_bytes_add)
  then show ?thesis using True assms(2) by simp
next
  case False
  then have "read_bytes m a n = xs @ ys" using assms(1) by (simp add: read_bytes_add)
  then have "length (read_bytes m a n) = n + k" using assms by simp
  then show ?thesis using False length_read_bytes [of m a n] by simp
qed

lemma length_concat_pack_le: "length (concat (map (pack_le n) entries)) = n * length entries"
  by (induction entries) (simp_all add: length_pack_le)

lemma get_dword_at_rva_pack_le:
  assumes "read_bytes (raw_data p) rva 4 = pack_le 4 e" and "0 \<le> e" and "e < 2 ^ 32"
  shows "get_dword_at_rva p rva = Some e"
proof -
  have "unpack_le (pack_le 4 e) = e"
    using assms(2,3) by (simp only: unpack_pack_le) simp
  then show ?thesis
    using assms(1) by (simp add: get_dword_at_rva_def length_pack_le del: pack_le.simps)
qed

text \<open>
  On an array of words of four bytes that ends with a zero word the scan returns the
  callbacks before the terminator, in order.
\<close>

lemma tls_callback_loop_dwords:
  assumes "\<forall>e \<in> set entries. 0 < e \<and> e < 2 ^ 32"
    and "read_bytes (raw_data p) rva (4 * length entries + 4) =
           concat (map (pack_le 4) entries) @ pack_le 4 0"
  shows "tls_callback_loop p rva (get_dword_at_rva p rva) callbacks
           = Some (callbacks @ map Some entries)"
  using assms
proof (induction entries arbitrary: rva callbacks)
  case Nil
  then have "read_bytes (raw_data p) rva 4 = pack_le 4 0" by simp
  then have "get_dword_at_rva p rva = Some 0"
    by (intro get_dword_at_rva_pack_le) simp_all
  then show ?case by (subst tls_callback_loop.simps) simp
next
  case (Cons e es)
  let ?rest = "concat (map (pack_le 4) es) @ pack_le 4 0"
  have "read_bytes (raw_data p) rva (4 + (4 * length es + 4)) = pack_le 4 e @ ?rest"
    using Cons.prems(2) by (simp add: algebra_simps del: pack_le.simps)
  moreover have "length (pack_le 4 e) = 4" "length ?rest = 4 * length es + 4"
    by (simp_all add: length_pack_le length_concat_pack_le del: pack_le.simps)
  ultimately have hd: "read_bytes (raw_data p) rva 4 = pack_le 4 e"
    and tl: "read_bytes (raw_data p) (rva + 4) (4 * length es + 4) = ?rest"
    using read_bytes_split [of "raw_data p" rva 4 "4 * length es + 4" "pack_le 4 e" ?rest]
    by simp_all
  have e: "0 < e" "e < 2 ^ 32" using Cons.prems(1) by simp_all
  have dw: "get_dword_at_rva p rva = Some e"
    using hd e by (intro get_dword_at_rva_pack_le) simp_all
  have "tls_callback_loop p (rva + 4) (get_dword_at_rva p (rva + 4)) (callbacks @ [Some e])
          = Some ((callbacks @ [Some e]) @ map Some es)"
    using Cons.prems(1) tl by (intro Cons.IH) simp_all
  then show ?case
    using e dw by (subst tls_callback_loop.simps) simp
qed

lemma register_tls_callbacks_dwords:
  assumes "\<forall>e \<in> set entries. 0 < e \<and> e < 2 ^ 32"
    and "read_bytes (raw_data (pe (objs st self))) (addr - linked_base (objs st self))
           (4 * length entries + 4) = concat (map (pack_le 4) entries) @ pack_le 4 0"
  shows "PE_register_tls_callbacks self addr st = Some (map Some entries)"
  using tls_callback_loop_dwords [OF assms, of "[]"]
  by (simp add: PE_register_tls_callbacks_def to_rva_def from_lva_def Let_def)

text \<open>
  Claim C8: the scan of a callback array of pointer-sized words that ends with a zero word
  should return the callbacks before the terminator. The start address is translated from
  LVA to RVA, but the scan reads words of four bytes whatever the pointer size: on the
  64-bit image \<open>tls64_state\<close>, whose array holds the one callback \<open>0x140001000\<close>, it
  returns the two halves of that callback as two callbacks.
\<close>

theorem tls_callbacks_read_as_dwords:
  "PE_register_tls_callbacks 0 0x140002000 tls64_state = Some [Some 0x40001000, Some 1]"
  by (simp add: PE_register_tls_callbacks_def tls64_state_def tls64_image_def example_defs
      to_rva_def from_lva_def get_dword_at_rva_def tls_callback_loop.simps
      pack_le_numeral read_bytes_numeral Let_def)

subsection \<open>Sections\<close>

lemma same_layout_refl: "same_layout st st"
  by (simp add: same_layout_def)

lemma same_layout_trans: "same_layout a b \<Longrightarrow> same_layout b c \<Longrightarrow> same_layout a c"
  by (simp add: same_layout_def)

lemma same_layout_fold:
  assumes "\<And>x st. same_layout st (f x st)"
  shows "same_layout st (fold f xs st)"
proof (induction xs arbitrary: st)
  case Nil
  show ?case by (simp add: same_layout_refl)
next
  case (Cons x xs)
  show ?case using assms [of st x] Cons [of "f x st"] by (auto intro: same_layout_trans)
qed

lemma same_layout_handle_import: "same_layout st (handle_import self ent imp st)"
  by (simp add: same_layout_def handle_import_def modify_def Let_def)

lemma same_layout_handle_imports: "same_layout st (PE_handle_imports self st)"
  unfolding PE_handle_imports_def
  by (auto split: option.splits intro!: same_layout_refl same_layout_fold same_layout_handle_import)

lemma same_layout_handle_export: "same_layout st (handle_export self exp st)"
  by (simp add: same_layout_def handle_export_def modify_def Let_def)

lemma same_layout_handle_exports: "same_layout st (PE_handle_exports self st)"
  unfolding PE_handle_exports_def
  by (auto split: option.splits intro!: same_layout_refl same_layout_fold same_layout_handle_export)

lemma same_layout_add_reloc:
  "same_layout st (modify self (\<lambda>ob. ob\<lparr>relocs := relocs ob @ [r]\<rparr>) st)"
  by (simp add: same_layout_def modify_def)

lemma same_layout_handle_reloc_entries:
  "same_layout st (handle_reloc_entries self entries entry_idx st)"
proof (induction self entries entry_idx st rule: handle_reloc_entries.induct)
  case (1 self entries entry_idx st)
  show ?case
  proof (cases "entry_idx < length entries")
    case False
    then show ?thesis by (simp add: handle_reloc_entries_end same_layout_refl)
  next
    case True
    show ?thesis
    proof (cases "entry_type (entries ! entry_idx) = IMAGE_REL_BASED_HIGHADJ")
      case h: True
      have "entry_idx \<noteq> length entries" using True by simp
      from "1.IH"(1)[OF True refl h this refl refl]
      show ?thesis
        unfolding handle_reloc_entries_highadj [OF True h] using h
        by (auto intro: same_layout_trans [OF same_layout_add_reloc])
    next
      case h: False
      from "1.IH"(2)[OF True refl h refl]
      show ?thesis
        unfolding handle_reloc_entries_other [OF True h]
        by (auto intro: same_layout_trans [OF same_layout_add_reloc])
    qed
  qed
qed

lemma same_layout_handle_relocs: "same_layout st (PE_handle_relocs self st)"
  unfolding PE_handle_relocs_def
  by (auto split: option.splits
      intro!: same_layout_refl same_layout_fold same_layout_handle_reloc_entries)

lemma same_layout_register_tls: "PE_register_tls self st = Some st' \<Longrightarrow> same_layout st st'"
  by (auto simp: PE_register_tls_def same_layout_def modify_def split: option.splits)

lemma register_sections_fold:
  "linked_base (objs (fold (register_section self) xs st) i) = linked_base (objs st i) \<and>
   mapped_base (objs (fold (register_section self) xs st) i) = mapped_base (objs st i) \<and>
   sections (objs (fold (register_section self) xs st) self) =
     sections (objs st self) @ map (\<lambda>s. PESection s (linked_base (objs st self))) xs"
proof (induction xs arbitrary: st)
  case Nil
  show ?case by simp
next
  case (Cons x xs)
  have "linked_base (objs (register_section self x st) i) = linked_base (objs st i)"
    "mapped_base (objs (register_section self x st) i) = mapped_base (objs st i)"
    "linked_base (objs (register_section self x st) self) = linked_base (objs st self)"
    "sections (objs (register_section self x st) self) =
       sections (objs st self) @ [PESection x (linked_base (objs st self))]"
    by (simp_all add: register_section_def modify_def Let_def)
  then show ?case using Cons [of "register_section self x st"] by simp
qed

lemma register_sections_layout:
  "placed (fold (register_section self) xs st) = placed st \<and>
   size_of (objs (fold (register_section self) xs st) i) = size_of (objs st i) \<and>
   pe (objs (fold (register_section self) xs st) i) = pe (objs st i) \<and>
   (i \<noteq> self \<longrightarrow> sections (objs (fold (register_section self) xs st) i) = sections (objs st i))"
  by (induction xs arbitrary: st) (simp_all add: register_section_def modify_def Let_def)

lemma PE_init_steps:
  obtains st5 st8 where
    "linked_base (objs st5 self) = ImageBase p" "mapped_base (objs st5 self) = ImageBase p"
    "pe (objs st5 self) = p" "sections (objs st5 self) = sections (objs st self)"
    "placed st5 = placed st" "\<And>i. size_of (objs st5 i) = size_of (objs st i)"
    "\<And>i. i \<noteq> self \<Longrightarrow> objs st5 i = objs st i"
    "same_layout st5 st8"
    "PE_init self binary is_main_bin p st =
      (case PE_register_tls self st8 of
         None \<Rightarrow> None
       | Some st9 \<Rightarrow>
           Some (modify self (\<lambda>ob. ob\<lparr>memory := memory ob ++ memory_mapped_image p\<rparr>)
                   (PE_register_sections self st9)))"
proof -
  define st1 where "st1 = modify self
      (\<lambda>ob. ob\<lparr>pe := p, mapped_base := ImageBase p, linked_base := ImageBase p\<rparr>) st"
  define st2 where "st2 = modify self
      (\<lambda>ob. ob\<lparr>obj_entry := to_lva (from_rva (AddressOfEntryPoint p) self st1) st1\<rparr>) st1"
  define st3 where "st3 = modify self
      (\<lambda>ob. ob\<lparr>deps := (case DIRECTORY_ENTRY_IMPORT p of
                              None \<Rightarrow> []
                            | Some entries \<Rightarrow> map dll entries)\<rparr>) st2"
  define st4 where "st4 = modify self
      (\<lambda>ob. ob\<lparr>provides := (case binary of
                                 None \<Rightarrow> None
                               | Some path \<Rightarrow>
                                   if \<not> is_main_bin then Some (basename path)
                                   else None)\<rparr>) st3"
  define st5 where "st5 = modify self
      (\<lambda>ob. ob\<lparr>tls_used := False, tls_data_start := None, tls_data_size := None,
               tls_index_address := None, tls_callbacks := None,
               tls_size_of_zero_fill := None, exports := Map.empty\<rparr>) st4"
  define st8 where
    "st8 = PE_handle_relocs self (PE_handle_exports self (PE_handle_imports self st5))"
  have "linked_base (objs st5 self) = ImageBase p" "mapped_base (objs st5 self) = ImageBase p"
    "pe (objs st5 self) = p" "sections (objs st5 self) = sections (objs st self)"
    "placed st5 = placed st" "\<And>i. size_of (objs st5 i) = size_of (objs st i)"
    "\<And>i. i \<noteq> self \<Longrightarrow> objs st5 i = objs st i"
    by (simp_all add: st5_def st4_def st3_def st2_def st1_def modify_def)
  moreover have "same_layout st5 st8"
    unfolding st8_def
    by (blast intro: same_layout_trans same_layout_handle_imports same_layout_handle_exports
        same_layout_handle_relocs)
  moreover have "PE_init self binary is_main_bin p st =
      (case PE_register_tls self st8 of
         None \<Rightarrow> None
       | Some st9 \<Rightarrow>
           Some (modify self (\<lambda>ob. ob\<lparr>memory := memory ob ++ memory_mapped_image p\<rparr>)
                   (PE_register_sections self st9)))"
    unfolding PE_init_def Let_def st8_def st5_def st4_def st3_def st2_def st1_def ..
  ultimately show thesis by (rule that)
qed

lemma PE_init_layout:
  assumes "PE_init self binary is_main_bin p st = Some st'"
  shows "linked_base (objs st' self) = ImageBase p"
    and "mapped_base (objs st' self) = ImageBase p"
    and "pe (objs st' self) = p"
    and "sections (objs st' self) =
           sections (objs st self) @ map (\<lambda>s. PESection s (ImageBase p)) (pe_sections p)"
    and "placed st' = placed st"
    and "size_of (objs st' i) = size_of (objs st i)"
    and "i \<noteq> self \<Longrightarrow> linked_base (objs st' i) = linked_base (objs st i)"
    and "i \<noteq> self \<Longrightarrow> mapped_base (objs st' i) = mapped_base (objs st i)"
    and "i \<noteq> self \<Longrightarrow> sections (objs st' i) = sections (objs st i)"
proof -
  obtain st5 st8 where 5: "linked_base (objs st5 self) = ImageBase p"
      "mapped_base (objs st5 self) = ImageBase p"
      "pe (objs st5 self) = p" "sections (objs st5 self) = sections (objs st self)"
      "placed st5 = placed st" "\<And>i. size_of (objs st5 i) = size_of (objs st i)"
      "\<And>i. i \<noteq> self \<Longrightarrow> objs st5 i = objs st i"
    and l58: "same_layout st5 st8"
    and init: "PE_init self binary is_main_bin p st =
      (case PE_register_tls self st8 of
         None \<Rightarrow> None
       | Some st9 \<Rightarrow>
           Some (modify self (\<lambda>ob. ob\<lparr>memory := memory ob ++ memory_mapped_image p\<rparr>)
                   (PE_register_sections self st9)))"
    by (rule PE_init_steps [of self p st binary is_main_bin]) blast
  from assms obtain st9 where tls: "PE_register_tls self st8 = Some st9"
    and st': "st' = modify self (\<lambda>ob. ob\<lparr>memory := memory ob ++ memory_mapped_image p\<rparr>)
                      (PE_register_sections self st9)"
    unfolding init by (auto split: option.splits)
  have l59: "same_layout st5 st9"
    using l58 same_layout_register_tls [OF tls] by (rule same_layout_trans)
  note sec = register_sections_fold [of self "pe_sections (pe (objs st9 self))" st9]
    register_sections_layout [of self "pe_sections (pe (objs st9 self))" st9]
  show "linked_base (objs st' self) = ImageBase p" "mapped_base (objs st' self) = ImageBase p"
    "pe (objs st' self) = p"
    "sections (objs st' self) =
           sections (objs st self) @ map (\<lambda>s. PESection s (ImageBase p)) (pe_sections p)"
    "placed st' = placed st" "size_of (objs st' i) = size_of (objs st i)"
    unfolding st' using l59 5(1-6) sec [of self] sec [of i]
    by (simp_all add: same_layout_def modify_def PE_register_sections_def)
  show "linked_base (objs st' i) = linked_base (objs st i)"
    "mapped_base (objs st' i) = mapped_base (objs st i)"
    "sections (objs st' i) = sections (objs st i)" if "i \<noteq> self"
    unfolding st' using that l59 5(7) [OF that] sec [of i]
    by (simp_all add: same_layout_def modify_def PE_register_sections_def)
qed

lemma PE_init_returns:
  assumes "DIRECTORY_ENTRY_TLS p = None"
  shows "\<exists>st'. PE_init self binary is_main_bin p st = Some st'"
proof -
  obtain st5 st8 where "pe (objs st5 self) = p" and "same_layout st5 st8"
    and init: "PE_init self binary is_main_bin p st =
      (case PE_register_tls self st8 of
         None \<Rightarrow> None
       | Some st9 \<Rightarrow>
           Some (modify self (\<lambda>ob. ob\<lparr>memory := memory ob ++ memory_mapped_image p\<rparr>)
                   (PE_register_sections self st9)))"
    by (rule PE_init_steps [of self p st binary is_main_bin]) blast
  then have "pe (objs st8 self) = p" by (simp add: same_layout_def)
  then have "PE_register_tls self st8 = Some st8"
    using assms by (simp add: PE_register_tls_def)
  then show ?thesis unfolding init by simp
qed

lemma add_object_fields:
  "linked_base (objs (add_object obj st) i) = linked_base (objs st i)"
  "size_of (objs (add_object obj st) i) = size_of (objs st i)"
  "pe (objs (add_object obj st) i) = pe (objs st i)"
  "i \<noteq> obj \<Longrightarrow> mapped_base (objs (add_object obj st) i) = mapped_base (objs st i)"
  "i \<noteq> obj \<Longrightarrow> sections (objs (add_object obj st) i) = sections (objs st i)"
  by (simp_all add: add_object_def modify_def Let_def)

text \<open>
  Placement moves the stored address of every section of the placed object by the
  distance between its mapped base and its link base.
\<close>

lemma add_object_translates:
  "section_addresses obj (add_object obj st) =
     map (\<lambda>a. mapped_base (objs (add_object obj st) obj) + (a - linked_base (objs st obj)))
       (section_addresses obj st)"
  by (simp add: section_addresses_def add_object_def modify_def Let_def translate_section_def
      to_mva_def from_lva_def comp_def)

text \<open>
  Claim C9: the sections of a PE object are wrapped with the link base of the object as
  offset, which is its mapped base when it is constructed, and the loader translates them
  when it places the object. So the virtual address of every wrapped section is the
  virtual address of its record plus the mapped base of the object, when the object has
  been constructed and again when the loader has placed it, wherever that is; placing
  another object changes none of these addresses.
\<close>

theorem sections_follow_mapped_base:
  "(PE_init self binary is_main_bin p st = Some st' \<and> sections (objs st self) = [] \<longrightarrow>
      linked_base (objs st' self) = mapped_base (objs st' self) \<and>
      section_addresses self st' = mapped_section_addresses self st' \<and>
      pe (objs (add_object self st') self) = p \<and>
      section_addresses self (add_object self st')
        = mapped_section_addresses self (add_object self st')) \<and>
   (i \<noteq> obj \<longrightarrow>
      section_addresses i (add_object obj s) = section_addresses i s \<and>
      mapped_section_addresses i (add_object obj s) = mapped_section_addresses i s)"
proof (intro conjI impI)
  assume "PE_init self binary is_main_bin p st = Some st' \<and> sections (objs st self) = []"
  then have init: "PE_init self binary is_main_bin p st = Some st'"
    and fresh: "sections (objs st self) = []"
    by simp_all
  note l = PE_init_layout(1-4) [OF init]
  show bases: "linked_base (objs st' self) = mapped_base (objs st' self)"
    using l(1,2) by simp
  show built: "section_addresses self st' = mapped_section_addresses self st'"
    using l fresh
    by (simp add: section_addresses_def mapped_section_addresses_def PESection_def comp_def)
  show "pe (objs (add_object self st') self) = p"
    using l(3) by (simp add: add_object_fields)
  have "section_addresses self (add_object self st') =
          map (\<lambda>a. mapped_base (objs (add_object self st') self) + (a - ImageBase p))
            (map (\<lambda>s. VirtualAddress s + ImageBase p) (pe_sections p))"
    using built l add_object_translates [of self st']
    by (simp add: mapped_section_addresses_def)
  then show "section_addresses self (add_object self st')
        = mapped_section_addresses self (add_object self st')"
    using l(3) by (simp add: mapped_section_addresses_def add_object_fields comp_def)
next
  assume "i \<noteq> obj"
  then show "section_addresses i (add_object obj s) = section_addresses i s"
    "mapped_section_addresses i (add_object obj s) = mapped_section_addresses i s"
    by (simp_all add: section_addresses_def mapped_section_addresses_def add_object_fields)
qed

lemma second_image_layout:
  obtains st1 st2 where
    "PE_init 1 (Some ''/lib/lib.dll'') False sec_pefile st1 = Some st2"
    "second_image = Some st2" "sections (objs st1 1) = []"
    "mapped_base (objs (add_object 1 st2) 1) = 0x403000"
    "linked_base (objs (add_object 1 st2) 1) = 0x400000"
    "section_addresses 0 st2 = [0x401000]"
proof -
  have tls: "DIRECTORY_ENTRY_TLS sec_pefile = None" and p: "ImageBase sec_pefile = 0x400000"
    by (simp_all add: sec_pefile_def blank_pefile_def)
  have s0: "placed sec_start = []" "size_of (objs sec_start i) = 0x3000"
    "sections (objs sec_start i) = []" for i
    by (simp_all add: sec_start_def blank_state_def blank_backend_def)
  obtain st0 where 0: "PE_init 0 (Some ''/bin/main.exe'') True sec_pefile sec_start = Some st0"
    using PE_init_returns [OF tls] by blast
  note l0 = PE_init_layout [OF 0]
  define st1 where "st1 = add_object 0 st0"
  have f1: "placed st1 = [0]" "mapped_base (objs st1 0) = 0x400000"
    "sections (objs st1 1) = []"
    using l0(5) l0(1) l0(9) [of 1] s0 p
    by (simp_all add: st1_def add_object_def conflict_def modify_def Let_def)
  have sz1: "size_of (objs st1 i) = 0x3000" for i
    using l0(6) [of i] s0 by (simp add: st1_def add_object_fields)
  obtain st2 where 2: "PE_init 1 (Some ''/lib/lib.dll'') False sec_pefile st1 = Some st2"
    using PE_init_returns [OF tls] by blast
  note l2 = PE_init_layout [OF 2]
  have f2: "placed st2 = [0]" "mapped_base (objs st2 0) = 0x400000"
    "size_of (objs st2 0) = 0x3000" "linked_base (objs st2 1) = 0x400000"
    "size_of (objs st2 1) = 0x3000"
    using l2(5) l2(8) [of 0] l2(6) [of 0] l2(6) [of 1] l2(1) f1 sz1 p by simp_all
  have "section_addresses 0 st0 = [0x401000]"
    using l0(4) s0 by (simp add: section_addresses_def sec_pefile_def blank_pefile_def PESection_def)
  then have "section_addresses 0 st1 = [0x401000]"
    using add_object_translates [of 0 st0] f1(2) l0(1) p by (simp add: st1_def)
  then have a0: "section_addresses 0 st2 = [0x401000]"
    using l2(9) [of 0] by (simp add: section_addresses_def)
  have "second_image = Some st2"
    using 0 2 by (simp add: second_image_def first_image_def st1_def)
  moreover have "mapped_base (objs (add_object 1 st2) 1) = 0x403000"
    "linked_base (objs (add_object 1 st2) 1) = 0x400000"
    using f2
    by (simp_all add: add_object_def conflict_def ranges_intersect_def get_max_addr_def
        modify_def Let_def)
  ultimately show thesis using 2 f1(3) a0 by (intro that [of st1 st2])
qed

theorem sections_follow_mapped_base_witness:
  "linked_base (objs (add_object 1 (the second_image)) 1) = 0x400000 \<and>
   mapped_base (objs (add_object 1 (the second_image)) 1) = 0x403000 \<and>
   section_addresses 1 (add_object 1 (the second_image)) = [0x404000] \<and>
   section_addresses 0 (add_object 1 (the second_image)) = [0x401000]"
proof -
  obtain st1 st2 where init: "PE_init 1 (Some ''/lib/lib.dll'') False sec_pefile st1 = Some st2"
    and st2: "second_image = Some st2" and fresh: "sections (objs st1 1) = []"
    and bases: "mapped_base (objs (add_object 1 st2) 1) = 0x403000"
      "linked_base (objs (add_object 1 st2) 1) = 0x400000"
    and first: "section_addresses 0 st2 = [0x401000]"
    by (rule second_image_layout)
  from sections_follow_mapped_base
         [of 1 "Some ''/lib/lib.dll''" False sec_pefile st1 st2 0 1 st2] init fresh
  have "pe (objs (add_object 1 st2) 1) = sec_pefile"
    and "section_addresses 1 (add_object 1 st2) = mapped_section_addresses 1 (add_object 1 st2)"
    and "section_addresses 0 (add_object 1 st2) = section_addresses 0 st2"
    by simp_all
  then show ?thesis
    using bases first
    by (simp add: st2 mapped_section_addresses_def sec_pefile_def blank_pefile_def)
qed

subsection \<open>Placement without overlap\<close>

lemma ranges_intersect_sym: "ranges_intersect a ea b eb = ranges_intersect b eb a ea"
  by (auto simp: ranges_intersect_def)

lemma ranges_intersect_iff:
  "ranges_intersect a ea b eb \<longleftrightarrow> (\<exists>x. a \<le> x \<and> x < a + ea \<and> b \<le> x \<and> x < b + eb)"
  unfolding ranges_intersect_def
proof
  assume "max a b < min (a + ea) (b + eb)"
  then have "a \<le> max a b \<and> max a b < a + ea \<and> b \<le> max a b \<and> max a b < b + eb" by auto
  then show "\<exists>x. a \<le> x \<and> x < a + ea \<and> b \<le> x \<and> x < b + eb" by blast
next
  assume "\<exists>x. a \<le> x \<and> x < a + ea \<and> b \<le> x \<and> x < b + eb"
  then show "max a b < min (a + ea) (b + eb)" by auto
qed

lemma placed_add_object: "placed (add_object obj st) = placed st @ [obj]"
  by (simp add: add_object_def Let_def modify_def)

lemma objs_add_object_other: "p \<noteq> obj \<Longrightarrow> objs (add_object obj st) p = objs st p"
  by (simp add: add_object_def Let_def modify_def)

lemma size_add_object: "size_of (objs (add_object obj st) p) = size_of (objs st p)"
  by (simp add: add_object_def Let_def modify_def)

lemma add_object_apart:
  assumes "p \<in> set (placed st)"
  shows "\<not> ranges_intersect (mapped_base (objs st p)) (size_of (objs st p))
            (mapped_base (objs (add_object obj st) obj)) (size_of (objs st obj))"
proof (cases "conflict obj st")
  case True
  let ?ends = "map (\<lambda>p. get_max_addr (objs st p)) (placed st)"
  have "get_max_addr (objs st p) \<in> set ?ends" using assms by simp
  then have "get_max_addr (objs st p) \<le> Max (set ?ends)" by (intro Max_ge) auto
  moreover have "mapped_base (objs (add_object obj st) obj) = Max (set ?ends)"
    using True by (simp add: add_object_def Let_def modify_def)
  ultimately show ?thesis by (simp add: ranges_intersect_def get_max_addr_def)
next
  case False
  then have "\<not> ranges_intersect (linked_base (objs st obj)) (size_of (objs st obj))
                (mapped_base (objs st p)) (size_of (objs st p))"
    using assms by (auto simp: conflict_def list_ex_iff)
  moreover have "mapped_base (objs (add_object obj st) obj) = linked_base (objs st obj)"
    using False by (simp add: add_object_def Let_def modify_def)
  ultimately show ?thesis by (simp add: ranges_intersect_sym)
qed

lemma add_object_non_overlapping:
  assumes inv: "non_overlapping st" and fresh: "obj \<notin> set (placed st)"
  shows "non_overlapping (add_object obj st)"
  unfolding non_overlapping_def
proof (intro allI impI)
  fix i j
  let ?st = "add_object obj st"
  let ?n = "length (placed st)"
  assume i: "i < length (placed ?st)" and j: "j < length (placed ?st)" and ne: "i \<noteq> j"
  have old: "k < ?n \<Longrightarrow> placed ?st ! k = placed st ! k \<and> placed st ! k \<in> set (placed st)
               \<and> objs ?st (placed st ! k) = objs st (placed st ! k)" for k
  proof -
    assume k: "k < ?n"
    then have "placed st ! k \<in> set (placed st)" by simp
    moreover from this fresh have "placed st ! k \<noteq> obj" by auto
    ultimately show ?thesis using k
      by (simp add: placed_add_object nth_append objs_add_object_other)
  qed
  have new: "placed ?st ! ?n = obj" by (simp add: placed_add_object)
  have le: "i \<le> ?n" "j \<le> ?n" using i j by (simp_all add: placed_add_object)
  consider "i < ?n" "j < ?n" | "i < ?n" "j = ?n" | "i = ?n" "j < ?n"
    using le ne by linarith
  then show "\<not> ranges_intersect
            (mapped_base (objs ?st (placed ?st ! i))) (size_of (objs ?st (placed ?st ! i)))
            (mapped_base (objs ?st (placed ?st ! j))) (size_of (objs ?st (placed ?st ! j)))"
  proof cases
    case 1
    then show ?thesis using inv ne old[of i] old[of j] by (simp add: non_overlapping_def)
  next
    case 2
    then show ?thesis
      using add_object_apart[of "placed st ! i" st obj] old[of i] new
      by (simp add: size_add_object)
  next
    case 3
    then show ?thesis
      using add_object_apart[of "placed st ! j" st obj] old[of j] new
      by (simp add: size_add_object ranges_intersect_sym)
  qed
qed

lemma fold_add_object_non_overlapping:
  "distinct objs_added \<Longrightarrow> set objs_added \<inter> set (placed st) = {} \<Longrightarrow> non_overlapping st \<Longrightarrow>
     non_overlapping (fold add_object objs_added st)"
proof (induction objs_added arbitrary: st)
  case Nil
  then show ?case by simp
next
  case (Cons obj rest)
  have "non_overlapping (add_object obj st)"
    using Cons.prems by (intro add_object_non_overlapping) auto
  moreover have "set rest \<inter> set (placed (add_object obj st)) = {}"
    using Cons.prems by (auto simp: placed_add_object)
  ultimately show ?case using Cons.IH[of "add_object obj st"] Cons.prems by simp
qed

text \<open>
  Claim C1: after any sequence of distinct objects has been added with \<open>add_object\<close> to
  a loader without objects, no two ranges \<open>[mapped_base, mapped_base + extent)\<close> of the
  placed objects overlap. And with a base object of preferred base \<open>0x8048000\<close> (and an
  extent that is not empty) loaded, an object with preferred base \<open>0x8047000\<close> and size
  \<open>0x2000\<close> is mapped above \<open>0x8048000\<close>, and an object with preferred base
  \<open>0x8047000\<close> and size \<open>0x1000\<close> added after it is mapped at \<open>0x8047000\<close>.
\<close>

theorem add_object_overlap_free:
  "(distinct objs_added \<and> placed st = [] \<longrightarrow> non_overlapping (fold add_object objs_added st)) \<and>
   (distinct [b, a, c] \<and> placed st = [] \<and> linked_base (objs st b) = 0x8048000 \<and>
    0 < size_of (objs st b) \<longrightarrow>
      (let st1 = add_object b st;
           st2 = MockBackend a 0x8047000 0x2000 st1;
           st3 = MockBackend c 0x8047000 0x1000 st2;
           st4 = add_object a st3;
           st5 = add_object c st4
       in mapped_base (objs st1 b) = 0x8048000 \<and> 0x8048000 < mapped_base (objs st5 a) \<and>
          mapped_base (objs st5 c) = 0x8047000))"
proof (intro conjI impI)
  assume "distinct objs_added \<and> placed st = []"
  moreover from this have "non_overlapping st" by (simp add: non_overlapping_def)
  ultimately show "non_overlapping (fold add_object objs_added st)"
    by (intro fold_add_object_non_overlapping) simp_all
next
  assume "distinct [b, a, c] \<and> placed st = [] \<and> linked_base (objs st b) = 0x8048000 \<and>
    0 < size_of (objs st b)"
  then show "let st1 = add_object b st;
           st2 = MockBackend a 0x8047000 0x2000 st1;
           st3 = MockBackend c 0x8047000 0x1000 st2;
           st4 = add_object a st3;
           st5 = add_object c st4
       in mapped_base (objs st1 b) = 0x8048000 \<and> 0x8048000 < mapped_base (objs st5 a) \<and>
          mapped_base (objs st5 c) = 0x8047000"
    by (simp add: Let_def add_object_def conflict_def MockBackend_def modify_def
        ranges_intersect_def get_max_addr_def)
qed

theorem add_object_overlap_free_witness:
  "non_overlapping (fold add_object [0, 1, 2] overlap_start) \<and>
   mapped_base (objs (fold add_object [0, 1, 2] overlap_start) 0) = 0x8048000 \<and>
   mapped_base (objs (fold add_object [0, 1, 2] overlap_start) 1) = 0x8049000 \<and>
   mapped_base (objs (fold add_object [0, 1, 2] overlap_start) 2) = 0x8047000"
  using add_object_overlap_free [of "[0, 1, 2]" overlap_start 0 1 2]
  by (simp add: overlap_start_def Let_def add_object_def conflict_def MockBackend_def modify_def
        ranges_intersect_def get_max_addr_def blank_state_def blank_backend_def)

end
